theory Spec2Isabelle
  imports Main
begin

section \<open>Data model\<close>

text \<open>
  The persistence layer is a document store with one collection per model. Documents are
  addressed by their ObjectId, modelled as a natural number. JavaScript numbers that hold
  quantities and amounts are modelled as unbounded integers (the data model of the
  specification declares them integers); fractional values and rounding are outside the
  model, and NaN appears only where a handler computes with a property that a schema does
  not declare. Requests are handled one at a time: every handler is a function from the
  store before the request to a result and the store after it. A handler that throws
  returns \<open>Inl\<close> of the error together with the store as it was when the exception
  left the handler, so writes made before the throw stay visible.
\<close>

type_synonym object_id = nat

datatype stock_level = in_stock | low_stock | out_of_stock

datatype movement_type = mv_in | mv_out | mv_adjustment

text \<open>
  Product documents (\<^verbatim>\<open>models/Product.ts\<close>), with the fields the modelled handlers
  read or write: the name, slug and SKU, the category and brand with their snapshots, and
  the three stock fields. The other fields of the schema (prices, media, flags, and so
  on) are not carried.
\<close>

record product =
  p_name :: string
  slug :: string
  sku :: string
  category :: "object_id option"
  category_snapshot :: "(object_id \<times> string \<times> string) option"
  brand :: "object_id option"
  brand_snapshot :: "(object_id \<times> string) option"
  quantity :: int
  low_stock_quantity :: int
  stock_status :: stock_level

text \<open>\<^verbatim>\<open>models/InventoryMovement.ts\<close>\<close>

record inventory_movement =
  m_product :: object_id
  m_type :: movement_type
  m_quantity :: int
  previous_quantity :: int
  new_quantity :: int
  m_reason :: string
  m_reference :: "string option"
  m_created_by :: "object_id option"

text \<open>
  Orders (\<^verbatim>\<open>models/Order\<close>) without the customer details, the shipping address, the
  tracking number and the return reason, which no handler modelled here reads or writes.
\<close>

datatype order_status =
  pending | processing | confirmed | shipped | delivered | cancelled | rejected | returned

datatype payment_method = cash | card | online | bank_transfer

datatype payment_status = unpaid | paid | refunded | partial

record order_item =
  productId :: object_id
  i_name :: string
  i_price :: int
  i_quantity :: int
  i_subtotal :: int

record order =
  orderNumber :: string
  customerId :: "object_id option"
  items :: "order_item list"
  subtotal :: int
  taxAmount :: int
  shippingAmount :: int
  discountAmount :: int
  totalAmount :: int
  status :: order_status
  paymentMethod :: payment_method
  paymentStatus :: payment_status
  o_notes :: "string option"
  cancelReason :: "string option"
  processedBy :: "object_id option"
  processedAt :: "nat option"

text \<open>
  Transactions (\<^verbatim>\<open>models/Transaction.ts\<close>) without the description and the date.
\<close>

datatype transaction_type = income | expense

datatype transaction_category =
  sale | purchase | return_cat | damage | salary | rent | utility | other

datatype transaction_status = completed | tx_pending | tx_cancelled

datatype entity_type = ent_order | ent_product | ent_supplier | ent_customer

record transaction =
  t_reference :: string
  t_type :: transaction_type
  t_category :: transaction_category
  t_amount :: int
  t_relatedEntity :: "(entity_type \<times> object_id) option"
  t_createdBy :: "object_id option"
  t_paymentMethod :: payment_method
  t_status :: transaction_status

datatype notification_type = nt_order | nt_reject

text \<open>
  Notifications: the recipient, the type and the linked order. Title and message are
  texts derived from the order number and are left out.
\<close>

record notification =
  n_recipientId :: object_id
  n_type :: notification_type
  n_entityId :: object_id

record db =
  products :: "object_id \<rightharpoonup> product"
  orders :: "object_id \<rightharpoonup> order"
  movements :: "inventory_movement list"
  transactions :: "transaction list"
  notifications :: "notification list"

text \<open>
  The errors the handlers raise. \<open>ValidationError\<close> is the error of a schema
  validator (\<^verbatim>\<open>min\<close>, \<^verbatim>\<open>required\<close>) that runs when a document is created or
  saved, \<open>DuplicateKey\<close> the error of a unique index; the other constructors are
  the \<^verbatim>\<open>ApiError\<close>s thrown by the controllers, one per message.
\<close>

datatype api_error =
    MissingFields
  | InvalidChange
  | ProductNotFound
  | InsufficientStock int int
  | InsufficientStockAtWrite
  | ProductNotUpdated
  | ValidationError
  | EmptyOrder
  | OrderProductNotFound object_id
  | ProductNotAvailable string
  | OrderInsufficientStock string
  | OrderNotFound
  | NotPending
  | SkuConflict
  | InvalidCategory
  | InvalidBrand
  | InvalidDiscountDates
  | DuplicateKey

section \<open>Stock status\<close>

text \<open>\<^verbatim>\<open>calculateStockStatus\<close> of \<^verbatim>\<open>utils/generators\<close>.\<close>

definition calculateStockStatus :: "int \<Rightarrow> int \<Rightarrow> stock_level" where
  "calculateStockStatus qty lowStockQuantity =
     (if qty = 0 then out_of_stock
      else if qty \<le> lowStockQuantity then low_stock
      else in_stock)"

text \<open>
  The pre-save hook of the product schema: when \<open>quantity\<close> or \<open>low_stock_quantity\<close>
  is modified, the stored status is recomputed with the same three cases, written out
  again in the hook.
\<close>

definition pre_save :: "bool \<Rightarrow> product \<Rightarrow> product" where
  "pre_save modified this =
     (if modified then
        (if quantity this = 0 then this\<lparr>stock_status := out_of_stock\<rparr>
         else if quantity this \<le> low_stock_quantity this then this\<lparr>stock_status := low_stock\<rparr>
         else this\<lparr>stock_status := in_stock\<rparr>)
      else this)"

section \<open>Stock adjustment\<close>

text \<open>
  The body of the stock request. \<open>change\<close> is \<open>None\<close> when the field is absent;
  \<open>rtype\<close> is the \<^verbatim>\<open>type\<close> field. JavaScript's \<^verbatim>\<open>!x\<close> holds of an absent
  value, of the number 0 and of the empty string.
\<close>

record stock_request =
  change :: "int option"
  rtype :: "string option"
  r_reason :: "string option"
  r_reference :: "string option"

definition falsy_num :: "int option \<Rightarrow> bool" where
  "falsy_num x = (case x of None \<Rightarrow> True | Some n \<Rightarrow> n = 0)"

definition falsy_str :: "string option \<Rightarrow> bool" where
  "falsy_str x = (case x of None \<Rightarrow> True | Some t \<Rightarrow> t = [])"

text \<open>
  Lines 411 to 425 of \<^verbatim>\<open>adjustStock\<close>: the movement type and the quantity the
  handler expects after the update, or the error of the application-level stock check.
\<close>

definition determineMovement ::
  "string \<Rightarrow> int \<Rightarrow> int \<Rightarrow> api_error + (movement_type \<times> int)" where
  "determineMovement type changeAmount previousQuantity =
     (if type = ''in'' \<or> changeAmount > 0 then
        Inr (mv_in, previousQuantity + \<bar>changeAmount\<bar>)
      else if type = ''out'' \<or> changeAmount < 0 then
        (let requestedAmount = \<bar>changeAmount\<bar> in
         if previousQuantity < requestedAmount
         then Inl (InsufficientStock previousQuantity requestedAmount)
         else Inr (mv_out, previousQuantity - requestedAmount))
      else Inr (mv_adjustment, changeAmount))"

text \<open>
  \<^verbatim>\<open>Product.findOneAndUpdate(filter, update, {new: true})\<close>: the document with the
  given id is updated if it exists and satisfies the rest of the filter, and the updated
  document is returned. Update validators are not enabled anywhere in the repository, so
  the schema's \<^verbatim>\<open>min: 0\<close> on \<open>quantity\<close> is not checked by this call.
\<close>

definition Product_findOneAndUpdate ::
  "db \<Rightarrow> object_id \<Rightarrow> (product \<Rightarrow> bool) \<Rightarrow> (product \<Rightarrow> product) \<Rightarrow> (product \<times> db) option" where
  "Product_findOneAndUpdate s pid cond upd =
     (case products s pid of
        None \<Rightarrow> None
      | Some p \<Rightarrow>
          if cond p then Some (upd p, s\<lparr>products := (products s)(pid \<mapsto> upd p)\<rparr>)
          else None)"

text \<open>
  \<^verbatim>\<open>InventoryMovement.create\<close>: the schema validators run before the insert
  (\<^verbatim>\<open>min: 0\<close> on \<open>previous_quantity\<close> and \<open>new_quantity\<close>).
\<close>

definition InventoryMovement_create :: "db \<Rightarrow> inventory_movement \<Rightarrow> api_error + db" where
  "InventoryMovement_create s m =
     (if previous_quantity m < 0 \<or> new_quantity m < 0 then Inl ValidationError
      else Inr (s\<lparr>movements := movements s @ [m]\<rparr>))"

definition default_reason :: "movement_type \<Rightarrow> string" where
  "default_reason t =
     (if t = mv_in then ''Stock added''
      else if t = mv_out then ''Stock removed'' else ''Stock adjusted'')"

text \<open>
  \<^verbatim>\<open>adjustStock\<close> of the product controller. The result of a successful call is the
  updated product and the movement that was recorded.
\<close>

definition adjustStock ::
  "db \<Rightarrow> object_id \<Rightarrow> stock_request \<Rightarrow> object_id option
     \<Rightarrow> (api_error + product \<times> inventory_movement) \<times> db" where
  "adjustStock s pid req user =
     (if falsy_num (change req) \<or> falsy_str (rtype req) then (Inl MissingFields, s)
      else
        let changeAmount = the (change req); type = the (rtype req) in
        if changeAmount = 0 then (Inl InvalidChange, s)
        else
          case products s pid of
            None \<Rightarrow> (Inl ProductNotFound, s)
          | Some product \<Rightarrow>
              let previousQuantity = quantity product in
              case determineMovement type changeAmount previousQuantity of
                Inl e \<Rightarrow> (Inl e, s)
              | Inr (movementType, newQuantity) \<Rightarrow>
                  case Product_findOneAndUpdate s pid
                         (\<lambda>p. if movementType = mv_out then quantity p \<ge> \<bar>changeAmount\<bar> else True)
                         (\<lambda>p. p\<lparr>quantity := quantity p + changeAmount,
                                stock_status :=
                                  calculateStockStatus newQuantity (low_stock_quantity product)\<rparr>)
                  of
                    None \<Rightarrow>
                      (Inl (if movementType = mv_out then InsufficientStockAtWrite
                            else ProductNotUpdated), s)
                  | Some (updatedProduct, s1) \<Rightarrow>
                      let m = \<lparr>m_product = pid, m_type = movementType,
                               m_quantity = \<bar>changeAmount\<bar>,
                               previous_quantity = previousQuantity,
                               new_quantity = quantity updatedProduct,
                               m_reason = (if falsy_str (r_reason req)
                                           then default_reason movementType
                                           else the (r_reason req)),
                               m_reference = r_reference req,
                               m_created_by = user\<rparr> in
                      case InventoryMovement_create s1 m of
                        Inl e \<Rightarrow> (Inl e, s1)
                      | Inr s2 \<Rightarrow> (Inr (updatedProduct, m), s2))"

section \<open>The product schema and documents outside it\<close>

text \<open>
  The paths declared by \<^verbatim>\<open>productSchema\<close> (lines 116 to 345 of
  \<^verbatim>\<open>models/Product.ts\<close>), with the paths every document has. The schema is strict
  (no option in the repository says otherwise): a property that is not a declared path
  has no accessor on a document read from the store, and is removed from an update
  before the update is sent.
\<close>

definition Product_paths :: "string list" where
  "Product_paths =
     [''_id'', ''__v'', ''createdAt'', ''updatedAt'',
      ''name'', ''slug'', ''description'', ''sku'', ''category'', ''category_snapshot'',
      ''brand'', ''brand_snapshot'', ''seller'', ''is_in_house'', ''unit'', ''weight'',
      ''unit_price'', ''quantity'', ''is_quantity_multiplying'', ''low_stock_quantity'',
      ''show_stock_quantity'', ''show_stock_text_only'', ''hide_stock'', ''stock_status'',
      ''discount'', ''vat_tax'', ''free_shipping'', ''free_shipping_flat_rate'',
      ''shipping_cost'', ''estimate_shipping_time'', ''gallery_images'',
      ''thumbnail_image'', ''product_video_provider'', ''product_video_url'', ''colors'',
      ''attributes'', ''tags'', ''meta_title'', ''meta_description'', ''meta_image'',
      ''external_link'', ''external_link_button_text'', ''barcode'', ''search_keywords'',
      ''publish'', ''cash_on_delivery'', ''is_featured'', ''is_todays_deal'',
      ''flash_deal_title'', ''flash_deal_discount'', ''flash_deal_discount_type'']"

text \<open>
  The JavaScript values that reading a property of a product can give: \<open>undefined\<close>,
  a number (or NaN after arithmetic on \<open>undefined\<close>), a string, or the value of a
  declared path that the record does not carry.
\<close>

datatype js_value = JUndefined | JNaN | JNumber int | JString string | JNotCarried

text \<open>\<^verbatim>\<open>product.path\<close> on a document returned by \<^verbatim>\<open>Product.findById\<close>.\<close>

definition Product_get :: "product \<Rightarrow> string \<Rightarrow> js_value" where
  "Product_get p path =
     (if path \<notin> set Product_paths then JUndefined
      else if path = ''name'' then JString (p_name p)
      else if path = ''slug'' then JString (slug p)
      else if path = ''sku'' then JString (sku p)
      else if path = ''quantity'' then JNumber (quantity p)
      else if path = ''low_stock_quantity'' then JNumber (low_stock_quantity p)
      else JNotCarried)"

text \<open>
  The arithmetic and the comparison the order controller applies to what it reads. With
  \<open>undefined\<close> (which converts to NaN) a product or sum is NaN and \<^verbatim>\<open><\<close> is
  false. Only \<open>undefined\<close>, NaN and numbers reach these operators in the handlers
  below; on the other values they are given the same results.
\<close>

definition js_times :: "js_value \<Rightarrow> int \<Rightarrow> js_value" where
  "js_times a n = (case a of JNumber x \<Rightarrow> JNumber (x * n) | _ \<Rightarrow> JNaN)"

definition js_plus :: "js_value \<Rightarrow> js_value \<Rightarrow> js_value" where
  "js_plus a b =
     (case a of
        JNumber x \<Rightarrow> (case b of JNumber y \<Rightarrow> JNumber (x + y) | _ \<Rightarrow> JNaN)
      | _ \<Rightarrow> JNaN)"

definition js_minus :: "js_value \<Rightarrow> js_value \<Rightarrow> js_value" where
  "js_minus a b =
     (case a of
        JNumber x \<Rightarrow> (case b of JNumber y \<Rightarrow> JNumber (x - y) | _ \<Rightarrow> JNaN)
      | _ \<Rightarrow> JNaN)"

definition js_less :: "js_value \<Rightarrow> int \<Rightarrow> bool" where
  "js_less a n = (case a of JNumber x \<Rightarrow> x < n | _ \<Rightarrow> False)"

text \<open>
  One entry \<^verbatim>\<open>path: n\<close> of a \<^verbatim>\<open>$inc\<close> on a product. An entry whose path is not
  declared is dropped; of the declared numeric paths the record carries two.
\<close>

definition Product_inc :: "string \<times> int \<Rightarrow> product \<Rightarrow> product" where
  "Product_inc entry p =
     (case entry of
        (path, n) \<Rightarrow>
          if path \<notin> set Product_paths then p
          else if path = ''quantity'' then p\<lparr>quantity := quantity p + n\<rparr>
          else if path = ''low_stock_quantity''
          then p\<lparr>low_stock_quantity := low_stock_quantity p + n\<rparr>
          else p)"

section \<open>Orders\<close>

text \<open>
  \<^verbatim>\<open>Product.findByIdAndUpdate(id, {$inc: ...})\<close>: the entries of the \<^verbatim>\<open>$inc\<close> are
  applied when the document exists; a missing document is not an error (the call returns
  null and the callers ignore the result).
\<close>

definition Product_findByIdAndUpdate :: "db \<Rightarrow> object_id \<Rightarrow> (string \<times> int) list \<Rightarrow> db" where
  "Product_findByIdAndUpdate s pid incs =
     (case products s pid of
        None \<Rightarrow> s
      | Some p \<Rightarrow> s\<lparr>products := (products s)(pid \<mapsto> fold Product_inc incs p)\<rparr>)"

text \<open>
  The validators of the order schema (\<^verbatim>\<open>required\<close> on strings, \<^verbatim>\<open>min\<close> on
  numbers). They run when an order is created and when it is saved. Fields with an
  \<^verbatim>\<open>enum\<close> are datatypes here and need no check. Generated order numbers and
  transaction references are taken to be fresh, so the unique indexes never reject.
\<close>

definition item_valid :: "order_item \<Rightarrow> bool" where
  "item_valid i = (i_name i \<noteq> [] \<and> 0 \<le> i_price i \<and> 1 \<le> i_quantity i \<and> 0 \<le> i_subtotal i)"

definition Order_validate :: "order \<Rightarrow> bool" where
  "Order_validate ord =
     (orderNumber ord \<noteq> [] \<and> list_all item_valid (items ord) \<and> 0 \<le> subtotal ord \<and>
      0 \<le> taxAmount ord \<and> 0 \<le> shippingAmount ord \<and> 0 \<le> discountAmount ord \<and>
      0 \<le> totalAmount ord)"

definition Order_create :: "db \<Rightarrow> object_id \<Rightarrow> order \<Rightarrow> api_error + db" where
  "Order_create s oid ord =
     (if Order_validate ord then Inr (s\<lparr>orders := (orders s)(oid \<mapsto> ord)\<rparr>)
      else Inl ValidationError)"

definition Order_save :: "db \<Rightarrow> object_id \<Rightarrow> order \<Rightarrow> api_error + db" where
  "Order_save s oid ord =
     (if Order_validate ord then Inr (s\<lparr>orders := (orders s)(oid \<mapsto> ord)\<rparr>)
      else Inl ValidationError)"

definition Transaction_create :: "db \<Rightarrow> transaction \<Rightarrow> api_error + db" where
  "Transaction_create s t =
     (if t_reference t = [] \<or> t_amount t < 0 then Inl ValidationError
      else Inr (s\<lparr>transactions := transactions s @ [t]\<rparr>))"

definition Notification_create :: "db \<Rightarrow> notification \<Rightarrow> db" where
  "Notification_create s n = s\<lparr>notifications := notifications s @ [n]\<rparr>"

text \<open>
  An item of the creation request: the product and the quantity. The request also
  carries a price per item, which the handler never reads.
\<close>

record request_item =
  ri_productId :: object_id
  ri_quantity :: int

record order_request =
  rq_customerId :: "object_id option"
  rq_items :: "request_item list"
  rq_paymentMethod :: payment_method
  rq_notes :: "string option"

text \<open>
  The object the first loop of \<^verbatim>\<open>createOrder\<close> pushes for an item: name, price and
  subtotal are what the reads of the product gave.
\<close>

record raw_item =
  raw_productId :: object_id
  raw_name :: js_value
  raw_price :: js_value
  raw_quantity :: int
  raw_subtotal :: js_value

text \<open>
  The first loop of \<^verbatim>\<open>createOrder\<close> (lines 113 to 138): every item is checked
  against the product as read from the store, through the properties \<^verbatim>\<open>status\<close>,
  \<^verbatim>\<open>stockQuantity\<close>, \<^verbatim>\<open>price\<close> and \<^verbatim>\<open>name\<close>, and the item objects and the
  subtotal are accumulated. Nothing is written.
\<close>

fun verifyItems ::
  "db \<Rightarrow> request_item list \<Rightarrow> js_value \<Rightarrow> raw_item list
     \<Rightarrow> api_error + (js_value \<times> raw_item list)" where
  "verifyItems s [] sub orderItems = Inr (sub, orderItems)"
| "verifyItems s (item # rest) sub orderItems =
     (case products s (ri_productId item) of
        None \<Rightarrow> Inl (OrderProductNotFound (ri_productId item))
      | Some product \<Rightarrow>
          if Product_get product ''status'' \<noteq> JString ''active''
          then Inl (ProductNotAvailable (p_name product))
          else if js_less (Product_get product ''stockQuantity'') (ri_quantity item)
          then Inl (OrderInsufficientStock (p_name product))
          else
            let itemSubtotal = js_times (Product_get product ''price'') (ri_quantity item) in
            verifyItems s rest (js_plus sub itemSubtotal)
              (orderItems @ [\<lparr>raw_productId = ri_productId item,
                               raw_name = Product_get product ''name'',
                               raw_price = Product_get product ''price'',
                               raw_quantity = ri_quantity item,
                               raw_subtotal = itemSubtotal\<rparr>]))"

text \<open>
  Casting the object given to \<^verbatim>\<open>Order.create\<close> to the order schema: a number field
  takes a number, the item name a string; \<open>undefined\<close> and NaN are rejected (the
  fields are required, NaN is not a number).
\<close>

definition cast_item :: "raw_item \<Rightarrow> order_item option" where
  "cast_item r =
     (case raw_name r of
        JString n \<Rightarrow>
          (case raw_price r of
             JNumber p \<Rightarrow>
               (case raw_subtotal r of
                  JNumber t \<Rightarrow>
                    Some \<lparr>productId = raw_productId r, i_name = n, i_price = p,
                          i_quantity = raw_quantity r, i_subtotal = t\<rparr>
                | _ \<Rightarrow> None)
           | _ \<Rightarrow> None)
      | _ \<Rightarrow> None)"

definition cast_number :: "js_value \<Rightarrow> int option" where
  "cast_number v = (case v of JNumber n \<Rightarrow> Some n | _ \<Rightarrow> None)"

text \<open>The second loop of \<^verbatim>\<open>createOrder\<close> (lines 163 to 167).\<close>

fun reduceStock :: "db \<Rightarrow> request_item list \<Rightarrow> db" where
  "reduceStock s [] = s"
| "reduceStock s (item # rest) =
     reduceStock
       (Product_findByIdAndUpdate s (ri_productId item)
          [(''stockQuantity'', - ri_quantity item)])
       rest"

text \<open>
  \<^verbatim>\<open>createOrder\<close>. \<open>user\<close> is the authenticated user (all order routes sit behind
  \<^verbatim>\<open>authenticate\<close>); \<open>oid\<close> and \<open>num\<close> are the ObjectId and the order number generated
  for the new order.
\<close>

definition createOrder ::
  "db \<Rightarrow> order_request \<Rightarrow> object_id \<Rightarrow> object_id \<Rightarrow> string \<Rightarrow> (api_error + order) \<times> db" where
  "createOrder s req user oid num =
     (if rq_items req = [] then (Inl EmptyOrder, s)
      else
        case verifyItems s (rq_items req) (JNumber 0) [] of
          Inl e \<Rightarrow> (Inl e, s)
        | Inr (sub, orderItems) \<Rightarrow>
            let tax = JNumber 0; shipping = JNumber 0; discount = JNumber 0;
                total = js_minus (js_plus (js_plus sub tax) shipping) discount
            in
            case (those (map cast_item orderItems), cast_number sub, cast_number total) of
              (Some its, Some sub', Some total') \<Rightarrow>
                (let ord = \<lparr>orderNumber = num,
                             customerId = (case rq_customerId req of
                                             Some c \<Rightarrow> Some c | None \<Rightarrow> Some user),
                             items = its, subtotal = sub', taxAmount = 0,
                             shippingAmount = 0, discountAmount = 0,
                             totalAmount = total', status = pending,
                             paymentMethod = rq_paymentMethod req, paymentStatus = unpaid,
                             o_notes = rq_notes req, cancelReason = None,
                             processedBy = None, processedAt = None\<rparr>
                 in
                 case Order_create s oid ord of
                   Inl e \<Rightarrow> (Inl e, s)
                 | Inr s1 \<Rightarrow>
                     let s2 = reduceStock s1 (rq_items req);
                         s3 = Notification_create s2
                                \<lparr>n_recipientId = user, n_type = nt_order, n_entityId = oid\<rparr>
                     in (Inr ord, s3))
            | _ \<Rightarrow> (Inl ValidationError, s))"

text \<open>The loop of lines 217 to 221 of \<^verbatim>\<open>updateOrderStatus\<close>.\<close>

fun updateSold :: "db \<Rightarrow> order_item list \<Rightarrow> db" where
  "updateSold s [] = s"
| "updateSold s (item # rest) =
     updateSold
       (Product_findByIdAndUpdate s (productId item) [(''soldQuantity'', i_quantity item)])
       rest"

text \<open>
  The stock-return loop, written twice in the source with the same body: lines 243 to
  247 of \<^verbatim>\<open>updateOrderStatus\<close> and lines 297 to 301 of \<^verbatim>\<open>deleteOrder\<close>.
\<close>

fun returnStock :: "db \<Rightarrow> order_item list \<Rightarrow> db" where
  "returnStock s [] = s"
| "returnStock s (item # rest) =
     returnStock
       (Product_findByIdAndUpdate s (productId item) [(''stockQuantity'', i_quantity item)])
       rest"

text \<open>
  Lines 212 to 239: the branch taken when the target status is \<open>delivered\<close> and the
  status read from the store is not. The order in memory is marked paid, the increments
  of \<^verbatim>\<open>soldQuantity\<close> are issued and the sale is posted; a validation error of
  the posting leaves the handler before the order is saved.
\<close>

definition onDelivered ::
  "db \<Rightarrow> object_id \<Rightarrow> order \<Rightarrow> order_status \<Rightarrow> order_status \<Rightarrow> object_id \<Rightarrow> string
     \<Rightarrow> (api_error \<times> db) + (order \<times> db)" where
  "onDelivered s oid ord oldStatus newStatus user ref =
     (if newStatus = delivered \<and> oldStatus \<noteq> delivered then
        let ord1 = ord\<lparr>paymentStatus := paid\<rparr>;
            s1 = updateSold s (items ord)
        in
        case Transaction_create s1
               \<lparr>t_reference = ref, t_type = income, t_category = sale,
                t_amount = totalAmount ord, t_relatedEntity = Some (ent_order, oid),
                t_createdBy = Some user, t_paymentMethod = paymentMethod ord,
                t_status = completed\<rparr>
        of
          Inl e \<Rightarrow> Inl (e, s1)
        | Inr s2 \<Rightarrow> Inr (ord1, s2)
      else Inr (ord, s))"

text \<open>Lines 241 to 252: the branch for the targets \<open>cancelled\<close> and \<open>rejected\<close>.\<close>

definition onCancelled ::
  "db \<Rightarrow> order \<Rightarrow> order_status \<Rightarrow> string option \<Rightarrow> order \<times> db" where
  "onCancelled s ord newStatus nts =
     (if newStatus = cancelled \<or> newStatus = rejected then
        let s1 = returnStock s (items ord) in
        if newStatus = rejected then (ord\<lparr>cancelReason := nts\<rparr>, s1) else (ord, s1)
      else (ord, s))"

text \<open>
  \<^verbatim>\<open>updateOrderStatus\<close>. \<open>nts\<close> is the \<^verbatim>\<open>notes\<close> field of the body, \<open>ref\<close> the
  generated transaction reference and \<open>now\<close> the current time.
\<close>

definition updateOrderStatus ::
  "db \<Rightarrow> object_id \<Rightarrow> order_status \<Rightarrow> string option \<Rightarrow> object_id \<Rightarrow> string \<Rightarrow> nat
     \<Rightarrow> (api_error + order) \<times> db" where
  "updateOrderStatus s oid newStatus nts user ref now =
     (case orders s oid of
        None \<Rightarrow> (Inl OrderNotFound, s)
      | Some stored \<Rightarrow>
          let oldStatus = status stored;
              ord0 = stored\<lparr>status := newStatus, processedBy := Some user,
                             processedAt := Some now\<rparr>;
              ord1 = (if falsy_str nts then ord0 else ord0\<lparr>o_notes := nts\<rparr>)
          in
          case onDelivered s oid ord1 oldStatus newStatus user ref of
            Inl (e, s1) \<Rightarrow> (Inl e, s1)
          | Inr (ord2, s1) \<Rightarrow>
              let (ord3, s2) = onCancelled s1 ord2 newStatus nts in
              case Order_save s2 oid ord3 of
                Inl e \<Rightarrow> (Inl e, s2)
              | Inr s3 \<Rightarrow>
                  let s4 = (case customerId ord3 of
                              None \<Rightarrow> s3
                            | Some c \<Rightarrow>
                                Notification_create s3
                                  \<lparr>n_recipientId = c,
                                   n_type = (if newStatus = rejected then nt_reject
                                             else nt_order),
                                   n_entityId = oid\<rparr>)
                  in (Inr ord3, s4))"

text \<open>\<^verbatim>\<open>deleteOrder\<close>.\<close>

definition deleteOrder :: "db \<Rightarrow> object_id \<Rightarrow> (api_error + unit) \<times> db" where
  "deleteOrder s oid =
     (case orders s oid of
        None \<Rightarrow> (Inl OrderNotFound, s)
      | Some ord \<Rightarrow>
          if status ord \<noteq> pending then (Inl NotPending, s)
          else
            let s1 = returnStock s (items ord) in
            (Inr (), s1\<lparr>orders := (orders s1)(oid := None)\<rparr>))"

section \<open>Product update\<close>




text \<open>
  The body of the update request, with the fields the handler inspects and the record
  carries. The discount appears with its two dates only. Gallery images, which the
  handler truncates to twenty, and all other fields of the body are assigned to fields
  the record does not carry and cannot make the handler fail after the route validation;
  requests are taken to contain no field outside this record.
\<close>

record product_body =
  body_name :: "string option"
  body_sku :: "string option"
  body_category :: "object_id option"
  body_brand :: "object_id option"
  body_quantity :: "int option"
  body_low_stock_quantity :: "int option"
  body_discount :: "(nat option \<times> nat option) option"






text \<open>The setter \<^verbatim>\<open>trim: true\<close> of the name (ASCII white space).\<close>

definition is_space :: "char \<Rightarrow> bool" where
  "is_space c = (c \<in> set [CHR '' '', CHR 0x09, CHR 0x0A, CHR 0x0B, CHR 0x0C, CHR 0x0D])"

definition trim :: "string \<Rightarrow> string" where
  "trim t = rev (dropWhile is_space (rev (dropWhile is_space t)))"









text \<open>
  \<^verbatim>\<open>Object.assign(product, data)\<close>: every field present in the body, as the handler
  has completed it, replaces the field of the document.
\<close>

definition assign ::
  "product \<Rightarrow> product_body \<Rightarrow> string option \<Rightarrow> (object_id \<times> string \<times> string) option
     \<Rightarrow> (object_id \<times> string) option \<Rightarrow> stock_level option \<Rightarrow> product" where
  "assign product data new_slug cat_snapshot brand_snapshot' new_status =
     product
       \<lparr>p_name := (case body_name data of Some n \<Rightarrow> trim n | None \<Rightarrow> p_name product),
        slug := (case new_slug of Some sl \<Rightarrow> sl | None \<Rightarrow> slug product),
        sku := (case body_sku data of Some k \<Rightarrow> k | None \<Rightarrow> sku product),
        category := (case body_category data of Some c \<Rightarrow> Some c | None \<Rightarrow> category product),
        category_snapshot := (case cat_snapshot of
                                Some sn \<Rightarrow> Some sn | None \<Rightarrow> category_snapshot product),
        brand := (case body_brand data of Some b \<Rightarrow> Some b | None \<Rightarrow> brand product),
        brand_snapshot := (case brand_snapshot' of
                             Some sn \<Rightarrow> Some sn | None \<Rightarrow> brand_snapshot product),
        quantity := (case body_quantity data of Some q \<Rightarrow> q | None \<Rightarrow> quantity product),
        low_stock_quantity := (case body_low_stock_quantity data of
                                 Some l \<Rightarrow> l | None \<Rightarrow> low_stock_quantity product),
        stock_status := (case new_status of Some st \<Rightarrow> st | None \<Rightarrow> stock_status product)\<rparr>"





section \<open>Vocabulary of the properties\<close>

text \<open>The sale posted for an order.\<close>

definition sale_of :: "object_id \<Rightarrow> order \<Rightarrow> object_id \<Rightarrow> string \<Rightarrow> transaction" where
  "sale_of oid ord user ref =
     \<lparr>t_reference = ref, t_type = income, t_category = sale, t_amount = totalAmount ord,
      t_relatedEntity = Some (ent_order, oid), t_createdBy = Some user,
      t_paymentMethod = paymentMethod ord, t_status = completed\<rparr>"

text \<open>
  The order in memory after the first assignments of \<^verbatim>\<open>updateOrderStatus\<close>
  (lines 202 to 209).
\<close>

definition touched :: "order \<Rightarrow> order_status \<Rightarrow> string option \<Rightarrow> object_id \<Rightarrow> nat \<Rightarrow> order" where
  "touched stored ns nts user now =
     (let ord0 = stored\<lparr>status := ns, processedBy := Some user, processedAt := Some now\<rparr>
      in if falsy_str nts then ord0 else ord0\<lparr>o_notes := nts\<rparr>)"


text \<open>
  The discipline the specification asks of every writer of a product's quantity, in its
  observable form: between two stores the quantity of product \<open>p\<close> differs only if
  exactly one movement was appended and that movement is about \<open>p\<close>, as a write
  through the stock adjustment handler leaves it.
\<close>

definition via_gateway :: "db \<Rightarrow> db \<Rightarrow> object_id \<Rightarrow> bool" where
  "via_gateway s s' p =
     (if map_option quantity (products s' p) = map_option quantity (products s p)
      then True
      else length (movements s') = Suc (length (movements s)) \<and>
           m_product (last (movements s')) = p)"

subsection \<open>Example data\<close>

definition widget :: "int \<Rightarrow> int \<Rightarrow> stock_level \<Rightarrow> product" where
  "widget q l st =
     \<lparr>p_name = ''Widget'', slug = ''widget'', sku = ''W-1'', category = None,
      category_snapshot = None, brand = None, brand_snapshot = None,
      quantity = q, low_stock_quantity = l, stock_status = st\<rparr>"

definition shop :: "product \<Rightarrow> db" where
  "shop p = \<lparr>products = [1 \<mapsto> p], orders = Map.empty, movements = [], transactions = [],
             notifications = []\<rparr>"

definition stock_req :: "int \<Rightarrow> string \<Rightarrow> stock_request" where
  "stock_req c t = \<lparr>change = Some c, rtype = Some t, r_reason = None, r_reference = None\<rparr>"

definition removal :: inventory_movement where
  "removal = \<lparr>m_product = 1, m_type = mv_out, m_quantity = 10, previous_quantity = 10,
               new_quantity = 0, m_reason = ''Stock removed'', m_reference = None,
               m_created_by = None\<rparr>"

definition gadget :: "int \<Rightarrow> product" where
  "gadget n =
     \<lparr>p_name = ''Gadget'', slug = ''gadget'', sku = ''G-1'', category = None,
      category_snapshot = None, brand = None, brand_snapshot = None,
      quantity = n, low_stock_quantity = 2, stock_status = in_stock\<rparr>"

definition warehouse :: db where
  "warehouse = \<lparr>products = [1 \<mapsto> gadget 10], orders = Map.empty,
                 movements = [], transactions = [], notifications = []\<rparr>"

definition order_req :: "(object_id \<times> int) list \<Rightarrow> order_request" where
  "order_req its =
     \<lparr>rq_customerId = None,
      rq_items = map (\<lambda>(p, n). \<lparr>ri_productId = p, ri_quantity = n\<rparr>) its,
      rq_paymentMethod = cash, rq_notes = None\<rparr>"

definition three_gadgets :: "order_status \<Rightarrow> order" where
  "three_gadgets st =
     \<lparr>orderNumber = ''ORD-1'', customerId = Some 7,
      items = [\<lparr>productId = 1, i_name = ''Gadget'', i_price = 5, i_quantity = 3,
                i_subtotal = 15\<rparr>],
      subtotal = 15, taxAmount = 0, shippingAmount = 0, discountAmount = 0,
      totalAmount = 15, status = st, paymentMethod = cash, paymentStatus = unpaid,
      o_notes = None, cancelReason = None, processedBy = None, processedAt = None\<rparr>"

definition backoffice :: "order_status \<Rightarrow> db" where
  "backoffice st = \<lparr>products = [1 \<mapsto> gadget 7], orders = [100 \<mapsto> three_gadgets st],
                     movements = [], transactions = [], notifications = []\<rparr>"



section \<open>The stock status\<close>

text \<open>
  Claim C5. The derived status is a function of the quantity and the threshold alone:
  \<open>out_of_stock\<close> for quantity 0 whatever the threshold, \<open>low_stock\<close> for a non-zero
  quantity at or below the threshold (equality included), \<open>in_stock\<close> above the
  threshold. The pre-save hook of the product schema derives the same status.
\<close>

theorem calculateStockStatus_cases:
  "calculateStockStatus 0 l = out_of_stock \<and>
   (q \<noteq> 0 \<and> q \<le> l \<longrightarrow> calculateStockStatus q l = low_stock) \<and>
   (q \<noteq> 0 \<and> l < q \<longrightarrow> calculateStockStatus q l = in_stock) \<and>
   stock_status (pre_save True p) = calculateStockStatus (quantity p) (low_stock_quantity p)"
  by (simp add: calculateStockStatus_def pre_save_def)

theorem calculateStockStatus_cases_witness:
  "(10::int) \<noteq> 0 \<and> (10::int) \<le> 10 \<and> calculateStockStatus 10 10 = low_stock \<and>
   (9::int) < 10 \<and> calculateStockStatus 10 9 = in_stock \<and>
   calculateStockStatus 0 10 = out_of_stock"
  using calculateStockStatus_cases [of 10 10 "widget 10 10 low_stock"]
        calculateStockStatus_cases [of 9 10 "widget 10 9 low_stock"]
  by simp

section \<open>The stock adjustment handler\<close>

lemmas adjust_defs = adjustStock_def falsy_num_def falsy_str_def determineMovement_def
  Product_findOneAndUpdate_def InventoryMovement_create_def

lemmas adjust_eval = adjust_defs Let_def shop_def widget_def stock_req_def
  calculateStockStatus_def default_reason_def

lemma determineMovement_cases:
  assumes "c \<noteq> 0"
  shows "determineMovement t c prev =
           (if t = ''in'' \<or> 0 < c then Inr (mv_in, prev + \<bar>c\<bar>)
            else if prev < \<bar>c\<bar> then Inl (InsufficientStock prev \<bar>c\<bar>)
            else Inr (mv_out, prev - \<bar>c\<bar>))"
  using assms by (auto simp: determineMovement_def Let_def)

text \<open>Everything a successful call has done.\<close>

lemma adjustStock_success:
  assumes "adjustStock s pid req user = (Inr (up, m), s')"
  obtains c t p mt nq where
    "change req = Some c" "c \<noteq> 0" "rtype req = Some t" "t \<noteq> []"
    "products s pid = Some p"
    "determineMovement t c (quantity p) = Inr (mt, nq)"
    "up = p\<lparr>quantity := quantity p + c,
            stock_status := calculateStockStatus nq (low_stock_quantity p)\<rparr>"
    "m_product m = pid" "m_type m = mt" "m_quantity m = \<bar>c\<bar>"
    "previous_quantity m = quantity p" "new_quantity m = quantity p + c"
    "0 \<le> quantity p" "0 \<le> quantity p + c"
    "s' = s\<lparr>products := (products s)(pid \<mapsto> up), movements := movements s @ [m]\<rparr>"
proof -
  from assms have v: "\<not> falsy_num (change req)" "\<not> falsy_str (rtype req)"
    by (simp_all add: adjustStock_def split: if_splits)
  then obtain c t where c: "change req = Some c" "c \<noteq> 0" and t: "rtype req = Some t" "t \<noteq> []"
    by (auto simp: falsy_num_def falsy_str_def split: option.splits)
  from assms v c t obtain p where p: "products s pid = Some p"
    by (cases "products s pid") (simp_all add: adjustStock_def Let_def)
  from assms v c t p obtain mt nq where d: "determineMovement t c (quantity p) = Inr (mt, nq)"
    by (cases "determineMovement t c (quantity p)") (auto simp: adjustStock_def Let_def)
  let ?up = "p\<lparr>quantity := quantity p + c,
               stock_status := calculateStockStatus nq (low_stock_quantity p)\<rparr>"
  let ?s1 = "s\<lparr>products := (products s)(pid \<mapsto> ?up)\<rparr>"
  from assms v c t p d
  have f: "Product_findOneAndUpdate s pid
             (\<lambda>p. if mt = mv_out then quantity p \<ge> \<bar>c\<bar> else True)
             (\<lambda>q. q\<lparr>quantity := quantity q + c,
                    stock_status := calculateStockStatus nq (low_stock_quantity p)\<rparr>)
           = Some (?up, ?s1)"
    by (simp add: adjustStock_def Let_def Product_findOneAndUpdate_def split: if_splits)
  let ?m = "\<lparr>m_product = pid, m_type = mt, m_quantity = \<bar>c\<bar>,
             previous_quantity = quantity p, new_quantity = quantity ?up,
             m_reason = (if falsy_str (r_reason req) then default_reason mt
                         else the (r_reason req)),
             m_reference = r_reference req, m_created_by = user\<rparr>"
  from assms v c t p d f
  have g: "(case InventoryMovement_create ?s1 ?m of
              Inl e \<Rightarrow> (Inl e, ?s1) | Inr s2 \<Rightarrow> (Inr (?up, ?m), s2)) = (Inr (up, m), s')"
    by (simp add: adjustStock_def Let_def)
  have h: "\<not> (previous_quantity ?m < 0 \<or> new_quantity ?m < 0)"
  proof
    assume "previous_quantity ?m < 0 \<or> new_quantity ?m < 0"
    then have "InventoryMovement_create ?s1 ?m = Inl ValidationError"
      by (simp add: InventoryMovement_create_def split del: if_split)
    with g show False by simp
  qed
  then have "InventoryMovement_create ?s1 ?m = Inr (?s1\<lparr>movements := movements ?s1 @ [?m]\<rparr>)"
    by (simp add: InventoryMovement_create_def split del: if_split)
  with g have r: "?up = up" "?m = m" "?s1\<lparr>movements := movements ?s1 @ [?m]\<rparr> = s'"
    by (auto split del: if_split)
  from h have nn: "0 \<le> quantity p" "0 \<le> quantity p + c" by simp_all
  from r have s'': "s' = s\<lparr>products := (products s)(pid \<mapsto> up), movements := movements s @ [m]\<rparr>"
    by (auto split del: if_split)
  have mm: "m_product m = pid" "m_type m = mt" "m_quantity m = \<bar>c\<bar>"
    "previous_quantity m = quantity p" "new_quantity m = quantity p + c"
    unfolding r(2) [symmetric] by simp_all
  note up = r(1) [symmetric]
  from c t p d up mm nn s'' show ?thesis by (rule that)
qed

lemma adjustStock_failure_movements:
  assumes "adjustStock s pid req user = (Inl e, s')"
  shows "movements s' = movements s"
  using assms
  by (auto simp: adjust_defs Let_def split: option.splits if_splits sum.splits prod.splits)

text \<open>
  A decrease that is not labelled \<open>in\<close> and exceeds the stored quantity is refused
  before anything is written.
\<close>

lemma adjustStock_out_insufficient:
  assumes "change req = Some c" "c < 0" "rtype req = Some t" "t \<noteq> []" "t \<noteq> ''in''"
    and "products s pid = Some p" "quantity p < \<bar>c\<bar>"
  shows "adjustStock s pid req user = (Inl (InsufficientStock (quantity p) \<bar>c\<bar>), s)"
  using assms by (simp add: adjust_defs Let_def)

text \<open>
  Away from the combination of type \<open>in\<close> with a negative change, a successful call
  leaves a non-negative quantity and the status derived from it.
\<close>

lemma adjustStock_consistent:
  assumes "adjustStock s pid req user = (Inr (up, m), s')"
    and "rtype req \<noteq> Some ''in'' \<or> 0 < the (change req)"
  shows "products s' pid = Some up \<and> 0 \<le> quantity up \<and>
         stock_status up = calculateStockStatus (quantity up) (low_stock_quantity up)"
proof -
  from assms(1) show ?thesis
  proof (rule adjustStock_success)
    fix c t p mt nq
    assume h: "change req = Some c" "c \<noteq> 0" "rtype req = Some t"
      "determineMovement t c (quantity p) = Inr (mt, nq)"
      "up = p\<lparr>quantity := quantity p + c,
            stock_status := calculateStockStatus nq (low_stock_quantity p)\<rparr>"
      "0 \<le> quantity p + c"
      "s' = s\<lparr>products := (products s)(pid \<mapsto> up), movements := movements s @ [m]\<rparr>"
    from h(1,3) assms(2) have "t \<noteq> ''in'' \<or> 0 < c" by auto
    with h(2,4) have "nq = quantity p + c"
      by (auto simp: determineMovement_cases split: if_splits)
    with h(5,6,7) show ?thesis by simp
  qed
qed

lemma adjustStock_via_gateway:
  assumes "adjustStock s pid req user = (Inr (up, m), s')"
  shows "via_gateway s s' p"
  using assms by (rule adjustStock_success) (simp add: via_gateway_def)

lemma adjustStock_removal:
  "adjustStock (shop (widget 10 10 low_stock)) 1 (stock_req (- 10) ''out'') None
     = (Inr (widget 0 10 out_of_stock, removal),
        \<lparr>products = [1 \<mapsto> widget 0 10 out_of_stock], orders = Map.empty,
         movements = [removal], transactions = [], notifications = []\<rparr>)"
  by (simp add: adjust_eval removal_def)

text \<open>
  Claim C1 fails on the code. A request of type \<open>in\<close> with a negative change is
  classified as an increase, so no stock check guards it, but the update increments
  the quantity by the signed change. On a product with quantity 3 the request
  (change -5, type \<open>in\<close>) leaves the stored quantity at -2; the handler then fails in
  the movement insert, after the write. On a product with quantity 5 and threshold 4 the
  request (change -2, type \<open>in\<close>) succeeds and leaves quantity 3 with the status
  \<open>in_stock\<close>, which was derived from the expected quantity 7, where the status
  of quantity 3 is \<open>low_stock\<close>.
\<close>

theorem adjustStock_in_with_negative_change:
  "fst (adjustStock (shop (widget 3 5 low_stock)) 1 (stock_req (- 5) ''in'') None)
     = Inl ValidationError \<and>
   map_option quantity
     (products (snd (adjustStock (shop (widget 3 5 low_stock)) 1 (stock_req (- 5) ''in'') None)) 1)
     = Some (- 2) \<and>
   \<not> isl (fst (adjustStock (shop (widget 5 4 in_stock)) 1 (stock_req (- 2) ''in'') None)) \<and>
   map_option (\<lambda>p. (quantity p, low_stock_quantity p, stock_status p))
     (products (snd (adjustStock (shop (widget 5 4 in_stock)) 1 (stock_req (- 2) ''in'') None)) 1)
     = Some (3, 4, in_stock) \<and>
   calculateStockStatus 3 4 = low_stock"
  by (simp add: adjust_eval)

text \<open>
  Claim C2 fails on the code, by the same defect. The decrease (change -7, type \<open>in\<close>)
  on a product with quantity 2 is not refused for insufficient stock: the product is
  written (quantity -5, status \<open>in_stock\<close>), then the movement insert fails its
  validation, so the caller sees an error other than the stock error and no movement is
  recorded. The same change with type \<open>out\<close> is refused and leaves the store as it
  was.
\<close>

theorem adjustStock_unguarded_decrease:
  "adjustStock (shop (widget 2 5 low_stock)) 1 (stock_req (- 7) ''in'') None
     = (Inl ValidationError,
        \<lparr>products = [1 \<mapsto> widget (- 5) 5 in_stock], orders = Map.empty,
         movements = [], transactions = [], notifications = []\<rparr>) \<and>
   adjustStock (shop (widget 2 5 low_stock)) 1 (stock_req (- 7) ''out'') None
     = (Inl (InsufficientStock 2 7), shop (widget 2 5 low_stock))"
  by (simp add: adjust_eval)

text \<open>
  Claim C4. A successful call appends exactly one movement to the log. The movement is
  about the adjusted product, its \<open>previous_quantity\<close> and \<open>new_quantity\<close> are the
  product's quantity before and after the call, and their difference is the signed
  change of the request, which is the increment the update applied.
\<close>

theorem adjustStock_one_movement:
  assumes "adjustStock s pid req user = (Inr (up, m), s')"
  shows "movements s' = movements s @ [m] \<and> m_product m = pid \<and>
         new_quantity m - previous_quantity m = the (change req) \<and>
         map_option quantity (products s pid) = Some (previous_quantity m) \<and>
         map_option quantity (products s' pid) = Some (new_quantity m)"
  using assms by (rule adjustStock_success) simp

theorem adjustStock_one_movement_witness:
  "adjustStock (shop (widget 10 10 low_stock)) 1 (stock_req (- 10) ''out'') None
     = (Inr (widget 0 10 out_of_stock, removal),
        \<lparr>products = [1 \<mapsto> widget 0 10 out_of_stock], orders = Map.empty,
         movements = [removal], transactions = [], notifications = []\<rparr>) \<and>
   new_quantity removal - previous_quantity removal = - 10 \<and>
   map_option quantity (products (shop (widget 10 10 low_stock)) 1)
     = Some (previous_quantity removal)"
  using adjustStock_one_movement [OF adjustStock_removal] adjustStock_removal
  by (simp add: stock_req_def)

text \<open>
  Claim C10. For a non-zero change the classification never yields the movement type
  \<open>adjustment\<close>, whatever the type of the request, so the branch that would assign
  the change as the new quantity is dead. Hence a movement recorded by the handler has
  type \<open>in\<close> or \<open>out\<close>, the quantity written is the previous quantity plus the
  change, and a failed call records no movement.
\<close>

theorem adjustment_type_unreachable:
  "(c \<noteq> 0 \<longrightarrow> (\<forall>nq. determineMovement t c prev \<noteq> Inr (mv_adjustment, nq))) \<and>
   (adjustStock s pid req user = (Inr (up, m), s') \<longrightarrow>
      (m_type m = mv_in \<or> m_type m = mv_out) \<and>
      quantity up = previous_quantity m + the (change req)) \<and>
   (adjustStock s pid req user = (Inl e, s') \<longrightarrow> movements s' = movements s)"
proof (intro conjI impI allI)
  fix nq assume "c \<noteq> 0"
  then show "determineMovement t c prev \<noteq> Inr (mv_adjustment, nq)"
    by (simp add: determineMovement_cases)
next
  assume a: "adjustStock s pid req user = (Inr (up, m), s')"
  then show "m_type m = mv_in \<or> m_type m = mv_out"
    by (rule adjustStock_success) (auto simp: determineMovement_cases split: if_splits)
  from a show "quantity up = previous_quantity m + the (change req)"
    by (rule adjustStock_success) simp
next
  assume "adjustStock s pid req user = (Inl e, s')"
  then show "movements s' = movements s"
    by (rule adjustStock_failure_movements)
qed

theorem adjustment_type_unreachable_witness:
  "(- 4 :: int) \<noteq> 0 \<and> determineMovement ''adjustment'' (- 4) 10 \<noteq> Inr (mv_adjustment, - 4) \<and>
   adjustStock (shop (widget 10 10 low_stock)) 1 (stock_req (- 10) ''out'') None
     = (Inr (widget 0 10 out_of_stock, removal),
        \<lparr>products = [1 \<mapsto> widget 0 10 out_of_stock], orders = Map.empty,
         movements = [removal], transactions = [], notifications = []\<rparr>) \<and>
   (m_type removal = mv_in \<or> m_type removal = mv_out) \<and>
   adjustStock (shop (widget 2 5 low_stock)) 1 (stock_req (- 7) ''adjustment'') None
     = (Inl (InsufficientStock 2 7), shop (widget 2 5 low_stock)) \<and>
   movements (shop (widget 2 5 low_stock)) = []"
proof -
  have f: "adjustStock (shop (widget 2 5 low_stock)) 1 (stock_req (- 7) ''adjustment'') None
             = (Inl (InsufficientStock 2 7), shop (widget 2 5 low_stock))"
    by (simp add: adjust_eval)
  from adjustment_type_unreachable
         [of "- 4" "''adjustment''" 10 "shop (widget 10 10 low_stock)" 1
             "stock_req (- 10) ''out''" None "widget 0 10 out_of_stock" removal
             "\<lparr>products = [1 \<mapsto> widget 0 10 out_of_stock], orders = Map.empty,
               movements = [removal], transactions = [], notifications = []\<rparr>"]
       adjustment_type_unreachable
         [of 1 "''in''" 0 "shop (widget 2 5 low_stock)" 1 "stock_req (- 7) ''adjustment''" None
             "widget 0 0 in_stock" removal "shop (widget 2 5 low_stock)"
             "InsufficientStock 2 7"]
       adjustStock_removal f
  show ?thesis by (simp add: shop_def)
qed

section \<open>Properties outside the schema\<close>

text \<open>
  The order controller reads the properties \<^verbatim>\<open>status\<close>, \<^verbatim>\<open>stockQuantity\<close> and
  \<^verbatim>\<open>price\<close> of a product and increments \<^verbatim>\<open>stockQuantity\<close> and
  \<^verbatim>\<open>soldQuantity\<close>. None of them is a path of the product schema: the reads give
  \<open>undefined\<close> and the increments change nothing.
\<close>

lemma undeclared_reads [simp]:
  "Product_get p ''status'' = JUndefined"
  "Product_get p ''stockQuantity'' = JUndefined"
  "Product_get p ''price'' = JUndefined"
  by (simp_all add: Product_get_def Product_paths_def)

lemma undeclared_increments [simp]:
  "Product_inc (''stockQuantity'', n) p = p"
  "Product_inc (''soldQuantity'', n) p = p"
  by (simp_all add: Product_inc_def Product_paths_def)

lemma findByIdAndUpdate_undeclared [simp]:
  "Product_findByIdAndUpdate s pid [(''stockQuantity'', n)] = s"
  "Product_findByIdAndUpdate s pid [(''soldQuantity'', n)] = s"
  by (simp_all add: Product_findByIdAndUpdate_def map_upd_triv split: option.splits)

lemma increment_passes_write_nothing [simp]:
  "reduceStock s rits = s" "returnStock s its = s" "updateSold s its = s"
  by (induction rits, simp_all) (induction its, simp_all)+

section \<open>Order creation\<close>



lemmas order_eval = createOrder_def updateOrderStatus_def deleteOrder_def onDelivered_def
  onCancelled_def Order_create_def Order_save_def Order_validate_def item_valid_def
  Transaction_create_def Notification_create_def falsy_str_def Let_def
  warehouse_def backoffice_def three_gadgets_def gadget_def order_req_def

text \<open>
  Claim C3 fails on the code. The claim has a request succeed in full when no
  reservation fails: the order stored and the quantity of each product lowered. A request
  for 3 pieces of a stored product with quantity 10 is refused: the handler tests
  \<^verbatim>\<open>product.status !== 'active'\<close>, the schema has no path \<^verbatim>\<open>status\<close>, the read
  gives \<open>undefined\<close>, and the product is reported as not available. No order is
  stored and the quantity stays 10. The same holds of every request
  (\<open>createOrder_refuses\<close>), so the failing half of the claim is all the handler does.
\<close>

theorem createOrder_refuses_stocked_product:
  "map_option quantity (products warehouse 1) = Some 10 \<and>
   createOrder warehouse (order_req [(1, 3)]) 7 100 ''ORD-1''
     = (Inl (ProductNotAvailable ''Gadget''), warehouse)"
  by (simp add: order_eval)

section \<open>Status transitions\<close>

lemma touched_simps [simp]:
  "status (touched stored ns nts user now) = ns"
  "items (touched stored ns nts user now) = items stored"
  "totalAmount (touched stored ns nts user now) = totalAmount stored"
  "paymentStatus (touched stored ns nts user now) = paymentStatus stored"
  "cancelReason (touched stored ns nts user now) = cancelReason stored"
  "paymentMethod (touched stored ns nts user now) = paymentMethod stored"
  "customerId (touched stored ns nts user now) = customerId stored"
  by (simp_all add: touched_def Let_def)

lemma onDelivered_Inr:
  assumes "onDelivered s oid ord old ns user ref = Inr (ord', s1)"
  shows "if ns = delivered \<and> old \<noteq> delivered
         then ord' = ord\<lparr>paymentStatus := paid\<rparr> \<and>
              s1 = s\<lparr>transactions := transactions s @ [sale_of oid ord user ref]\<rparr>
         else ord' = ord \<and> s1 = s"
  using assms
  by (auto simp: onDelivered_def Transaction_create_def sale_of_def Let_def split: if_splits)


lemma onCancelled_eq:
  "onCancelled s ord ns nts = (if ns = rejected then ord\<lparr>cancelReason := nts\<rparr> else ord, s)"
  by (simp add: onCancelled_def Let_def)

lemma customerId_onCancelled [simp]:
  "customerId (fst (onCancelled s ord ns nts)) = customerId ord"
  by (simp add: onCancelled_eq)

text \<open>The handler on an order that exists, as a composition of its three stages.\<close>

lemma updateOrderStatus_unfold:
  assumes "orders s oid = Some stored"
  shows "updateOrderStatus s oid ns nts user ref now =
     (case onDelivered s oid (touched stored ns nts user now) (status stored) ns user ref of
        Inl (e, s1) \<Rightarrow> (Inl e, s1)
      | Inr (ord2, s1) \<Rightarrow>
          (case Order_save (snd (onCancelled s1 ord2 ns nts)) oid (fst (onCancelled s1 ord2 ns nts)) of
             Inl e \<Rightarrow> (Inl e, snd (onCancelled s1 ord2 ns nts))
           | Inr s3 \<Rightarrow>
               (Inr (fst (onCancelled s1 ord2 ns nts)),
                case customerId ord2 of
                  None \<Rightarrow> s3
                | Some c \<Rightarrow> Notification_create s3
                     \<lparr>n_recipientId = c,
                      n_type = (if ns = rejected then nt_reject else nt_order),
                      n_entityId = oid\<rparr>)))"
  using assms
  by (simp add: updateOrderStatus_def touched_def Let_def case_prod_beta split del: if_split
        cong: sum.case_cong prod.case_cong)

text \<open>Everything a successful status update has done.\<close>

lemma updateOrderStatus_Inr:
  assumes o: "orders s oid = Some stored"
    and u: "updateOrderStatus s oid ns nts user ref now = (Inr ord, s')"
  shows "status ord = ns \<and> items ord = items stored \<and> totalAmount ord = totalAmount stored \<and>
         orders s' = (orders s)(oid \<mapsto> ord) \<and> movements s' = movements s \<and>
         products s' = products s \<and>
         paymentStatus ord =
           (if ns = delivered \<and> status stored \<noteq> delivered then paid else paymentStatus stored) \<and>
         cancelReason ord = (if ns = rejected then nts else cancelReason stored) \<and>
         transactions s' =
           (if ns = delivered \<and> status stored \<noteq> delivered
            then transactions s @ [sale_of oid stored user ref] else transactions s)"
proof -
  let ?t = "touched stored ns nts user now"
  from u obtain ord2 s1 where d: "onDelivered s oid ?t (status stored) ns user ref = Inr (ord2, s1)"
    by (auto simp: updateOrderStatus_unfold [OF o] split: sum.splits prod.splits)
  note dr = onDelivered_Inr [OF d]
  let ?o3 = "if ns = rejected then ord2\<lparr>cancelReason := nts\<rparr> else ord2"
  from u d have ord: "ord = ?o3"
    and s': "orders s' = (orders s1)(oid \<mapsto> ?o3)" "products s' = products s1"
            "movements s' = movements s1" "transactions s' = transactions s1"
    by (auto simp: updateOrderStatus_unfold [OF o] onCancelled_eq Order_save_def
          Notification_create_def split: sum.splits prod.splits if_splits option.splits)
  show ?thesis
  proof (cases "ns = delivered \<and> status stored \<noteq> delivered")
    case True
    with dr have "ord2 = ?t\<lparr>paymentStatus := paid\<rparr>"
      "s1 = s\<lparr>transactions := transactions s @ [sale_of oid ?t user ref]\<rparr>"
      by simp_all
    with True ord s' show ?thesis
      by (simp add: sale_of_def)
  next
    case False
    with dr have "ord2 = ?t" "s1 = s" by simp_all
    with False ord s' show ?thesis
      by auto
  qed
qed


text \<open>A status update of a stored order that satisfies its schema does not fail.\<close>

lemma updateOrderStatus_succeeds:
  assumes "orders s oid = Some stored" "Order_validate stored" "ref \<noteq> []"
  shows "\<not> isl (fst (updateOrderStatus s oid ns nts user ref now))"
  using assms
  by (auto simp: updateOrderStatus_unfold onDelivered_def onCancelled_eq Order_save_def
        Transaction_create_def touched_def Order_validate_def Let_def
        split: if_splits option.splits)


lemma deliver_three_gadgets:
  "fst (updateOrderStatus (backoffice pending) 100 delivered None 9 ''TXN-1'' 0)
     = Inr ((three_gadgets delivered)
              \<lparr>paymentStatus := paid, processedBy := Some 9, processedAt := Some 0\<rparr>)"
  by (simp add: order_eval)

text \<open>
  Claim C6. When an order whose stored status is not \<open>delivered\<close> is set to
  \<open>delivered\<close>, the saved order is marked \<open>paid\<close> and exactly one transaction is
  appended: an \<open>income\<close> of category \<open>sale\<close> whose amount is the order's total and
  which is linked to the order.
\<close>

theorem delivered_transition:
  assumes "orders s oid = Some stored" and "status stored \<noteq> delivered"
    and "updateOrderStatus s oid delivered nts user ref now = (Inr ord, s')"
  shows "orders s' oid = Some ord \<and> status ord = delivered \<and> paymentStatus ord = paid \<and>
         (\<exists>t. transactions s' = transactions s @ [t] \<and> t_type t = income \<and>
               t_category t = sale \<and> t_amount t = totalAmount ord \<and>
               t_relatedEntity t = Some (ent_order, oid))"
  using updateOrderStatus_Inr [OF assms(1,3)] assms(2)
  by (simp add: sale_of_def)

theorem delivered_transition_witness:
  "orders (backoffice pending) 100 = Some (three_gadgets pending) \<and>
   status (three_gadgets pending) \<noteq> delivered \<and>
   fst (updateOrderStatus (backoffice pending) 100 delivered None 9 ''TXN-1'' 0)
     = Inr ((three_gadgets delivered)
              \<lparr>paymentStatus := paid, processedBy := Some 9, processedAt := Some 0\<rparr>) \<and>
   length (transactions (snd (updateOrderStatus (backoffice pending) 100 delivered None 9 ''TXN-1'' 0)))
     = 1"
proof -
  let ?u = "updateOrderStatus (backoffice pending) 100 delivered None 9 ''TXN-1'' 0"
  let ?ord = "(three_gadgets delivered)
                \<lparr>paymentStatus := paid, processedBy := Some 9, processedAt := Some 0\<rparr>"
  have o: "orders (backoffice pending) 100 = Some (three_gadgets pending)"
    by (simp add: backoffice_def)
  have n: "status (three_gadgets pending) \<noteq> delivered"
    by (simp add: three_gadgets_def)
  have u: "?u = (Inr ?ord, snd ?u)"
    using deliver_three_gadgets by (metis prod.collapse)
  from delivered_transition [OF o n u]
  have "\<exists>t. transactions (snd ?u) = transactions (backoffice pending) @ [t]" by blast
  then have "length (transactions (snd ?u)) = 1"
    by (auto simp: backoffice_def)
  with o n deliver_three_gadgets show ?thesis by simp
qed

text \<open>
  Claim C7 fails on the code, by the defect of C3: the stock is returned with
  \<^verbatim>\<open>$inc: {stockQuantity: item.quantity}\<close>, and \<^verbatim>\<open>stockQuantity\<close> is not a path
  of the product schema, so the increment is dropped. Cancelling a pending order for 3
  pieces of product 1, which holds 7, saves the order as \<open>cancelled\<close> and leaves the
  product with quantity 7, where the claim has 10. No status update changes any product
  (\<open>updateOrderStatus_products\<close>). The other half of the claim holds: a rejection
  saves the notes as \<open>cancelReason\<close> (\<open>updateOrderStatus_Inr\<close>).
\<close>

theorem cancellation_returns_nothing:
  "fst (updateOrderStatus (backoffice pending) 100 cancelled None 9 ''TXN-1'' 0)
     = Inr ((three_gadgets cancelled)\<lparr>processedBy := Some 9, processedAt := Some 0\<rparr>) \<and>
   products (backoffice pending) 1 = Some (gadget 7) \<and>
   products (snd (updateOrderStatus (backoffice pending) 100 cancelled None 9 ''TXN-1'' 0)) 1
     = Some (gadget 7)"
  by (simp add: order_eval)




section \<open>Who writes the quantity\<close>




lemma assign_stock [simp]:
  "quantity (assign p d sl cs bs st) = (case body_quantity d of Some q \<Rightarrow> q | None \<Rightarrow> quantity p)"
  "low_stock_quantity (assign p d sl cs bs st) =
     (case body_low_stock_quantity d of Some l \<Rightarrow> l | None \<Rightarrow> low_stock_quantity p)"
  "stock_status (assign p d sl cs bs st) = (case st of Some x \<Rightarrow> x | None \<Rightarrow> stock_status p)"
  by (simp_all add: assign_def)

lemma pre_save_stock [simp]:
  "quantity (pre_save m p) = quantity p"
  "low_stock_quantity (pre_save m p) = low_stock_quantity p"
  "stock_status (pre_save m p) =
     (if m then calculateStockStatus (quantity p) (low_stock_quantity p) else stock_status p)"
  by (simp_all add: pre_save_def calculateStockStatus_def)







end
